theory Spec2Isabelle
  imports Complex_Main "HOL-Library.AList"
begin

section \<open>Data model of package validation\<close>

text \<open>
  The Go \<^verbatim>\<open>float64\<close> values of \<^verbatim>\<open>Boundaries\<close> and of \<^verbatim>\<open>json.Number.Float64()\<close> are only
  ever compared (\<^verbatim>\<open>>=\<close>, \<^verbatim>\<open><=\<close>). A finite double is a rational number; the two zeros
  compare equal and are both \<open>Finite 0\<close>. Infinities and NaN compare as IEEE 754 says.
\<close>

datatype float64 = Finite rat | PosInf | NegInf | NaN

fun f64_le :: "float64 \<Rightarrow> float64 \<Rightarrow> bool" where
  "f64_le NaN y = False"
| "f64_le x NaN = False"
| "f64_le NegInf y = True"
| "f64_le x PosInf = True"
| "f64_le (Finite a) (Finite b) = (a \<le> b)"
| "f64_le PosInf y = False"
| "f64_le x NegInf = False"

definition f64_ge :: "float64 \<Rightarrow> float64 \<Rightarrow> bool" where
  "f64_ge x y = f64_le y x"

text \<open>
  The values behind \<^verbatim>\<open>interface{}\<close> are those a JSON decoder with \<^verbatim>\<open>UseNumber\<close> builds:
  \<^verbatim>\<open>nil\<close>, \<^verbatim>\<open>bool\<close>, \<^verbatim>\<open>json.Number\<close>, \<^verbatim>\<open>string\<close>, \<^verbatim>\<open>[]interface{}\<close> and
  \<^verbatim>\<open>map[string]interface{}\<close>. A \<^verbatim>\<open>json.Number\<close> is kept as the \<^verbatim>\<open>float64\<close> that its method
  \<^verbatim>\<open>Float64()\<close> yields (the source discards that method's error). A map is a list of
  entries in the order in which \<^verbatim>\<open>range\<close> visits them.
\<close>

datatype dyn =
    Null
  | Bool bool
  | Number float64
  | Str string
  | Seq "dyn list"
  | Map "(string \<times> dyn) list"

type_synonym document = "(string \<times> dyn) list"

text \<open>Constants of the source: roles and usages, numbered by \<^verbatim>\<open>iota\<close>.\<close>

definition UNAUTHENTICATED :: int where "UNAUTHENTICATED = 0"
definition USER :: int where "USER = 1"
definition OWNER :: int where "OWNER = 2"
definition ADMIN :: int where "ADMIN = 3"
definition NONE :: int where "NONE = 4"

definition INIT :: int where "INIT = 0"
definition GET :: int where "GET = 1"
definition SET :: int where "SET = 2"

text \<open>
  \<^verbatim>\<open>DataError{Type, Reason, Field, Value}\<close>; an unset \<^verbatim>\<open>Value\<close> is \<open>Null\<close>. The error list
  holds pointers, and a custom test may hand back a nil pointer: an entry is an option.
\<close>

datatype DataError =
  DataError (err_Type: string) (Reason: string) (err_Field: string) (Value: dyn)

type_synonym errors = "DataError option list"

record Options =
  Usage :: int
  UserRights :: int
  Args :: dyn

record Boundaries =
  Min_bound :: float64
  Max_bound :: float64

text \<open>
  \<^verbatim>\<open>Rights [3]int\<close> is a triple. \<^verbatim>\<open>Default\<close> and \<^verbatim>\<open>CustomTest\<close> are function values that
  may be nil; they are taken to be pure and total.
\<close>

record Validator =
  Type :: string
  Field_name :: string
  Regexp :: string
  Rights :: "int \<times> int \<times> int"
  Boundaries :: Boundaries
  IsRequired :: bool
  Default :: "(dyn \<Rightarrow> dyn) option"
  CustomTest :: "(dyn \<Rightarrow> bool \<times> DataError option) option"

text \<open>What stops a call: \<^verbatim>\<open>panic(err)\<close>, \<^verbatim>\<open>log.Panic(err)\<close> and the runtime's own panics.\<close>

datatype panic =
    Panic_error string
  | Index_out_of_range
  | Slice_bounds_out_of_range
  | Nil_dereference

text \<open>
  Code of other packages that \<^verbatim>\<open>Validate\<close> calls is a parameter of the model:
  \<^verbatim>\<open>tools.ReadDeep\<close>, \<^verbatim>\<open>tools.WriteDeep\<close> (which updates \<^verbatim>\<open>dest\<close> in place: here it returns
  the updated document) and \<^verbatim>\<open>regexp.Compile\<close> followed by \<^verbatim>\<open>MatchString\<close>. \<open>Inl\<close> is the
  \<^verbatim>\<open>error\<close> they return.
\<close>

record deps =
  ReadDeep :: "document \<Rightarrow> string \<Rightarrow> string + dyn"
  WriteDeep :: "document \<Rightarrow> string \<Rightarrow> dyn \<Rightarrow> string + document"
  regexp_Compile :: "string \<Rightarrow> string + (string \<Rightarrow> bool)"

section \<open>Library functions used by the checks\<close>

text \<open>
  \<^verbatim>\<open>bson.IsObjectIdHex\<close> (package mgo): the string has 24 bytes and \<^verbatim>\<open>hex.DecodeString\<close>
  accepts it, that is, every byte is a digit or a letter a-f or A-F.
\<close>

definition is_hex_digit :: "char \<Rightarrow> bool" where
  "is_hex_digit c = (c \<in> set ''0123456789abcdefABCDEF'')"

definition is_lower_hex_digit :: "char \<Rightarrow> bool" where
  "is_lower_hex_digit c = (c \<in> set ''0123456789abcdef'')"

definition IsObjectIdHex :: "string \<Rightarrow> bool" where
  "IsObjectIdHex s = (length s = 24 \<and> list_all is_hex_digit s)"

text \<open>\<^verbatim>\<open>strings.SplitAfter(s, "]")\<close>: the pieces of \<open>s\<close>, each cut after a closing bracket.\<close>

fun SplitAfter :: "string \<Rightarrow> char \<Rightarrow> string list" where
  "SplitAfter [] sep = [[]]"
| "SplitAfter (c # cs) sep =
     (if c = sep then [c] # SplitAfter cs sep
      else (case SplitAfter cs sep of
              [] \<Rightarrow> [[c]]
            | p # ps \<Rightarrow> (c # p) # ps))"

text \<open>
  \<^verbatim>\<open>reflect.TypeOf(x).String()\<close>. For a nil interface \<^verbatim>\<open>reflect.TypeOf\<close> is nil and the
  method call panics.
\<close>

fun TypeOf_String :: "dyn \<Rightarrow> panic + string" where
  "TypeOf_String Null = Inl Nil_dereference"
| "TypeOf_String (Bool b) = Inr ''bool''"
| "TypeOf_String (Number n) = Inr ''json.Number''"
| "TypeOf_String (Str s) = Inr ''string''"
| "TypeOf_String (Seq xs) = Inr ''[]interface {}''"
| "TypeOf_String (Map kvs) = Inr ''map[string]interface {}''"

section \<open>Methods of Validator\<close>

definition ExecRegexp :: "deps \<Rightarrow> Validator \<Rightarrow> string \<Rightarrow> string + bool" where
  "ExecRegexp d v str =
     (case regexp_Compile d (Regexp v) of
        Inl err \<Rightarrow> Inl err
      | Inr validate \<Rightarrow> Inr (validate str))"

definition CheckBoundaries :: "Validator \<Rightarrow> float64 \<Rightarrow> bool" where
  "CheckBoundaries v val =
     (f64_ge val (Min_bound (Boundaries v)) \<and> f64_le val (Max_bound (Boundaries v)))"

definition CheckRights :: "Validator \<Rightarrow> int \<Rightarrow> int \<Rightarrow> bool" where
  "CheckRights v userRights usage = (userRights \<ge> usage)"

section \<open>The three checks\<close>

text \<open>\<^verbatim>\<open>validator.Rights[usage]\<close>: an index outside 0..2 panics.\<close>

fun Rights_at :: "int \<times> int \<times> int \<Rightarrow> int \<Rightarrow> panic + int" where
  "Rights_at (a, b, c) i =
     (if i = 0 then Inr a else if i = 1 then Inr b else if i = 2 then Inr c
      else Inl Index_out_of_range)"

definition checkRights :: "Validator \<Rightarrow> int \<Rightarrow> int \<Rightarrow> errors \<Rightarrow> panic + (bool \<times> errors)" where
  "checkRights validator usage userRights errs =
     (case Rights_at (Rights validator) usage of
        Inl p \<Rightarrow> Inl p
      | Inr required \<Rightarrow>
          if \<not> CheckRights validator userRights required
          then Inr (False, errs @ [Some (DataError ''Validation error'' ''Insufficient rights''
                                          (Field_name validator) Null)])
          else Inr (True, errs))"

text \<open>The user's custom test, the last part of \<^verbatim>\<open>checkValue\<close>.\<close>

definition customTest :: "Validator \<Rightarrow> dyn \<Rightarrow> errors \<Rightarrow> panic + (bool \<times> errors)" where
  "customTest validator valueToTest errs =
     (case CustomTest validator of
        None \<Rightarrow> Inr (True, errs)
      | Some f \<Rightarrow>
          (case f valueToTest of
             (ok, err) \<Rightarrow> if \<not> ok then Inr (False, errs @ [err]) else Inr (True, errs)))"

fun checkValue :: "deps \<Rightarrow> Validator \<Rightarrow> dyn \<Rightarrow> errors \<Rightarrow> panic + (bool \<times> errors)" where
  "checkValue d validator (Str s) errs =
     (if Regexp validator \<noteq> ''''
      then (case ExecRegexp d validator s of
              Inl err \<Rightarrow> Inl (Panic_error err)
            | Inr ok \<Rightarrow>
                if \<not> ok
                then Inr (False, errs @ [Some (DataError ''Validation error'' ''Regex not match''
                                                (Field_name validator) (Str s))])
                else customTest validator (Str s) errs)
      else customTest validator (Str s) errs)"
| "checkValue d validator (Number n) errs =
     (if \<not> CheckBoundaries validator n
      then Inr (False, errs @ [Some (DataError ''Validation error'' ''Out of boundaries''
                                      (Field_name validator) (Number n))])
      else customTest validator (Number n) errs)"
| "checkValue d validator valueToTest errs = customTest validator valueToTest errs"

text \<open>The loop of \<^verbatim>\<open>checkType\<close> over the elements of a slice.\<close>

fun checkType_elems :: "Validator \<Rightarrow> string \<Rightarrow> dyn list \<Rightarrow> errors \<Rightarrow> panic + (bool \<times> errors)" where
  "checkType_elems validator type' [] errs = Inr (True, errs)"
| "checkType_elems validator type' (val # rest) errs =
     (case TypeOf_String val of
        Inl p \<Rightarrow> Inl p
      | Inr vtype \<Rightarrow>
          if vtype \<noteq> type'
          then (if (case val of Str stringValue \<Rightarrow>
                               type' = ''bson.ObjectId'' \<and> IsObjectIdHex stringValue
                             | _ \<Rightarrow> False)
                then Inr (True, errs)
                else Inr (False, errs @ [Some (DataError ''Validation error'' ''Type mismatch''
                                                (Field_name validator)
                                                (Str (''[] contains '' @ vtype)))]))
          else checkType_elems validator type' rest errs)"

text \<open>
  The loop of \<^verbatim>\<open>checkType\<close> over the entries of a map. \<^verbatim>\<open>parts[0]\<close> always exists;
  \<^verbatim>\<open>vtype.String()\<close> panics for a nil value and \<^verbatim>\<open>parts[1]\<close> panics when the type string
  has no closing bracket, in this order.
\<close>

fun checkType_entries ::
  "Validator \<Rightarrow> string list \<Rightarrow> (string \<times> dyn) list \<Rightarrow> errors \<Rightarrow> panic + (bool \<times> errors)" where
  "checkType_entries validator parts [] errs = Inr (True, errs)"
| "checkType_entries validator parts ((key, val) # rest) errs =
     (case parts of
        [] \<Rightarrow> Inl Index_out_of_range
      | p0 # others \<Rightarrow>
          if p0 = ''map[bson.ObjectId]'' \<and> \<not> IsObjectIdHex key
          then Inr (False, errs @ [Some (DataError ''Validation error'' ''Type mismatch''
                     (Field_name validator)
                     (Str (''one of the indexes at least is not valid ObjectId: '' @ key)))])
          else (case TypeOf_String val of
                  Inl p \<Rightarrow> Inl p
                | Inr vtype \<Rightarrow>
                    (case others of
                       [] \<Rightarrow> Inl Index_out_of_range
                     | p1 # ps \<Rightarrow>
                         if vtype \<noteq> p1
                         then Inr (False, errs @ [Some (DataError ''Validation error''
                                    ''Type mismatch'' (Field_name validator)
                                    (Str (''one of the map values is of type: '' @ vtype)))])
                         else checkType_entries validator parts rest errs)))"

fun checkType :: "Validator \<Rightarrow> dyn \<Rightarrow> errors \<Rightarrow> panic + (bool \<times> errors)" where
  "checkType validator (Seq xs) errs =
     (if length (Type validator) < 2 then Inl Slice_bounds_out_of_range
      else if take 2 (Type validator) \<noteq> ''[]''
      then Inr (False, errs @ [Some (DataError ''Validation error'' ''Type mismatch''
                                      (Field_name validator) (Str ''[]interface {}''))])
      else checkType_elems validator (drop 2 (Type validator)) xs errs)"
| "checkType validator (Map kvs) errs =
     checkType_entries validator (SplitAfter (Type validator) CHR '']'') kvs errs"
| "checkType validator Null errs = Inr (True, errs)"
| "checkType validator valueToTest errs =
     (case TypeOf_String valueToTest of
        Inl p \<Rightarrow> Inl p
      | Inr tname \<Rightarrow>
          if tname \<noteq> Type validator
          then (if (case valueToTest of Str s \<Rightarrow> IsObjectIdHex s | _ \<Rightarrow> False)
                then Inr (True, errs)
                else Inr (False, errs @ [Some (DataError ''Validation error'' ''Type mismatch''
                                                (Field_name validator) (Str tname))]))
          else Inr (True, errs))"

section \<open>Validate\<close>

text \<open>The test of line 126: the value is nil, or a slice of length 0.\<close>

fun absent :: "dyn \<Rightarrow> bool" where
  "absent Null = True"
| "absent (Seq []) = True"
| "absent v = False"

text \<open>
  The three checks in their order on a present value; the first that fails ends the
  iteration (\<^verbatim>\<open>continue\<close>), and the document is not touched by them.
\<close>

definition run_checks :: "deps \<Rightarrow> Validator \<Rightarrow> dyn \<Rightarrow> Options \<Rightarrow> errors \<Rightarrow> panic + errors" where
  "run_checks d validator val opt errs =
     (case checkType validator val errs of
        Inl p \<Rightarrow> Inl p
      | Inr (ok1, errs1) \<Rightarrow>
          if \<not> ok1 then Inr errs1
          else (case checkValue d validator val errs1 of
                  Inl p \<Rightarrow> Inl p
                | Inr (ok2, errs2) \<Rightarrow>
                    if \<not> ok2 then Inr errs2
                    else (case checkRights validator (Usage opt) (UserRights opt) errs2 of
                            Inl p \<Rightarrow> Inl p
                          | Inr (ok3, errs3) \<Rightarrow> Inr errs3)))"

text \<open>
  One iteration of the loop of \<^verbatim>\<open>Validate\<close>, for the entry \<open>(path, validator)\<close> of the
  map of validators. The entry is a pointer: \<open>None\<close> is nil, and reading a field of it
  panics.
\<close>

definition Validate_field ::
  "deps \<Rightarrow> document \<Rightarrow> Options \<Rightarrow> string \<times> Validator option \<Rightarrow> document \<times> errors
     \<Rightarrow> panic + (document \<times> errors)" where
  "Validate_field d m opt entry st =
     (case entry of (path, vptr) \<Rightarrow>
      case st of (dest, errs) \<Rightarrow>
      case ReadDeep d m path of
        Inl err \<Rightarrow> Inl (Panic_error err)
      | Inr val \<Rightarrow>
          if absent val
          then (if Usage opt = INIT
                then (case vptr of
                        None \<Rightarrow> Inl Nil_dereference
                      | Some validator \<Rightarrow>
                          if IsRequired validator
                          then Inr (dest, errs @ [Some (DataError ''Validation error''
                                                         ''Required'' path Null)])
                          else (case Default validator of
                                  Some f \<Rightarrow>
                                    (case WriteDeep d dest path (f (Args opt)) of
                                       Inl err \<Rightarrow> Inl (Panic_error err)
                                     | Inr dest' \<Rightarrow> Inr (dest', errs))
                                | None \<Rightarrow> Inr (dest, errs)))
                else Inr (dest, errs))
          else (case (if Usage opt = SET then Inr (AList.update path val dest)
                      else WriteDeep d dest path val) of
                  Inl err \<Rightarrow> Inl (Panic_error err)
                | Inr dest' \<Rightarrow>
                    (case vptr of
                       None \<Rightarrow> Inl Nil_dereference
                     | Some validator \<Rightarrow>
                         (case run_checks d validator val opt errs of
                            Inl p \<Rightarrow> Inl p
                          | Inr errs' \<Rightarrow> Inr (dest', errs')))))"

text \<open>
  The loop over the map of validators. The list gives the entries in the order in which
  \<^verbatim>\<open>range\<close> happens to visit them; the keys of a Go map are distinct.
\<close>

fun Validate_loop ::
  "deps \<Rightarrow> document \<Rightarrow> Options \<Rightarrow> (string \<times> Validator option) list \<Rightarrow> document \<times> errors
     \<Rightarrow> panic + (document \<times> errors)" where
  "Validate_loop d m opt [] st = Inr st"
| "Validate_loop d m opt (entry # rest) st =
     (case Validate_field d m opt entry st of
        Inl p \<Rightarrow> Inl p
      | Inr st' \<Rightarrow> Validate_loop d m opt rest st')"

definition Validate ::
  "deps \<Rightarrow> (string \<times> Validator option) list \<Rightarrow> document \<Rightarrow> Options
     \<Rightarrow> panic + (document \<times> errors)" where
  "Validate d validators m opt = Validate_loop d m opt validators ([], [])"

section \<open>The path accessor and a sample environment\<close>

text \<open>
  Modelled from the spec: the path accessor \<^verbatim>\<open>tools.ReadDeep\<close> / \<^verbatim>\<open>tools.WriteDeep\<close> of
  package \<^verbatim>\<open>github.com/grebett/tools\<close>, whose code is not among the sources. The spec
  (section 6) gives it two operations over a path of dot-separated segments that
  addresses nested mappings: a read that yields the value or nothing, and a write that
  creates intermediate mappings as needed or reports a malformed path. The general
  results below hold for every accessor; this one serves the closed instances.
\<close>

fun split_dots :: "string \<Rightarrow> string list" where
  "split_dots [] = [[]]"
| "split_dots (c # cs) =
     (if c = CHR ''.'' then [] # split_dots cs
      else (case split_dots cs of
              [] \<Rightarrow> [[c]]
            | p # ps \<Rightarrow> (c # p) # ps))"

fun read_segments :: "dyn \<Rightarrow> string list \<Rightarrow> dyn" where
  "read_segments v [] = v"
| "read_segments (Map kvs) (k # ks) =
     (case map_of kvs k of None \<Rightarrow> Null | Some x \<Rightarrow> read_segments x ks)"
| "read_segments v (k # ks) = Null"

fun write_segments :: "document \<Rightarrow> string list \<Rightarrow> dyn \<Rightarrow> string + document" where
  "write_segments m [] v = Inl ''malformed path''"
| "write_segments m [k] v = Inr (AList.update k v m)"
| "write_segments m (k # ks) v =
     (case (case map_of m k of
              None \<Rightarrow> write_segments [] ks v
            | Some (Map sub) \<Rightarrow> write_segments sub ks v
            | Some other \<Rightarrow> Inl ''malformed path'') of
        Inl err \<Rightarrow> Inl err
      | Inr sub' \<Rightarrow> Inr (AList.update k (Map sub') m))"

definition spec_ReadDeep :: "document \<Rightarrow> string \<Rightarrow> string + dyn" where
  "spec_ReadDeep m path =
     (if [] \<in> set (split_dots path) then Inl ''malformed path''
      else Inr (read_segments (Map m) (split_dots path)))"

definition spec_WriteDeep :: "document \<Rightarrow> string \<Rightarrow> dyn \<Rightarrow> string + document" where
  "spec_WriteDeep m path v =
     (if [] \<in> set (split_dots path) then Inl ''malformed path''
      else write_segments m (split_dots path) v)"

text \<open>
  A stand-in for \<^verbatim>\<open>regexp.Compile\<close> on the two kinds of pattern the closed instances
  use: the pattern \<^verbatim>\<open>(\<close>, which Go rejects, and a pattern of letters and digits only,
  which matches every string that contains it. No other pattern is used below.
\<close>

fun contains :: "string \<Rightarrow> string \<Rightarrow> bool" where
  "contains [] p = (p = [])"
| "contains (c # cs) p = (take (length p) (c # cs) = p \<or> contains cs p)"

definition sample_Compile :: "string \<Rightarrow> string + (string \<Rightarrow> bool)" where
  "sample_Compile p =
     (if p = ''('' then Inl ''error parsing regexp: missing closing ): `(`''
      else Inr (\<lambda>s. contains s p))"

definition sample_deps :: deps where
  "sample_deps =
     \<lparr>ReadDeep = spec_ReadDeep, WriteDeep = spec_WriteDeep, regexp_Compile = sample_Compile\<rparr>"

text \<open>A validator with every field at its Go zero value, and the given type and field.\<close>

definition zero_Validator :: "string \<Rightarrow> string \<Rightarrow> Validator" where
  "zero_Validator t f =
     \<lparr>Type = t, Field_name = f, Regexp = '''', Rights = (0, 0, 0),
      Boundaries = \<lparr>Min_bound = Finite 0, Max_bound = Finite 0\<rparr>,
      IsRequired = False, Default = None, CustomTest = None\<rparr>"

text \<open>A custom test that rejects every value.\<close>

definition reject_all :: "dyn \<Rightarrow> bool \<times> DataError option" where
  "reject_all x = (False, Some (DataError ''Validation error'' ''Rejected'' ''age'' x))"

text \<open>The rules, documents and options of the scenarios of the spec (section 8).\<close>

definition name_rule :: Validator where
  "name_rule = (zero_Validator ''string'' ''name'')\<lparr>IsRequired := True\<rparr>"

definition age_rule :: Validator where
  "age_rule = (zero_Validator ''json.Number'' ''age'')
     \<lparr>Boundaries := \<lparr>Min_bound = Finite 0, Max_bound = Finite 120\<rparr>\<rparr>"

definition tags_rule :: Validator where
  "tags_rule = zero_Validator ''[]string'' ''tags''"

definition nick_rule :: Validator where
  "nick_rule = (zero_Validator ''string'' ''nick'')\<lparr>Regexp := ''(''\<rparr>"

definition options :: "int \<Rightarrow> int \<Rightarrow> Options" where
  "options usage role = \<lparr>Usage = usage, UserRights = role, Args = Null\<rparr>"





section \<open>Notions used to state the results\<close>

text \<open>
  The output document as the copying steps alone build it, in the words of the spec
  (section 4.4, steps 3 and 4): a present value is copied, as a flat key under SET and by
  the nested write otherwise; under INIT an absent field that is not required and has a
  default provider receives its default. No check takes part. \<open>None\<close> when the accessor
  reports an error.
\<close>

fun copy_fields ::
  "deps \<Rightarrow> document \<Rightarrow> Options \<Rightarrow> (string \<times> Validator option) list \<Rightarrow> document
     \<Rightarrow> document option" where
  "copy_fields d m opt [] dest = Some dest"
| "copy_fields d m opt ((path, vptr) # rest) dest =
     (case ReadDeep d m path of
        Inl err \<Rightarrow> None
      | Inr val \<Rightarrow>
          if absent val
          then (case (if Usage opt = INIT
                      then (case vptr of
                              None \<Rightarrow> None
                            | Some v \<Rightarrow> if IsRequired v then None else Default v)
                      else None) of
                  None \<Rightarrow> copy_fields d m opt rest dest
                | Some f \<Rightarrow>
                    (case WriteDeep d dest path (f (Args opt)) of
                       Inl err \<Rightarrow> None
                     | Inr dest' \<Rightarrow> copy_fields d m opt rest dest'))
          else (case (if Usage opt = SET then Inr (AList.update path val dest)
                      else WriteDeep d dest path val) of
                  Inl err \<Rightarrow> None
                | Inr dest' \<Rightarrow> copy_fields d m opt rest dest'))"









section \<open>Unfolding the scenarios\<close>

lemmas scenario_defs =
  Validate_def Validate_field_def run_checks_def sample_deps_def spec_ReadDeep_def
  spec_WriteDeep_def sample_Compile_def zero_Validator_def name_rule_def age_rule_def
  tags_rule_def nick_rule_def options_def INIT_def GET_def SET_def
  UNAUTHENTICATED_def USER_def OWNER_def ADMIN_def NONE_def
  CheckBoundaries_def f64_ge_def checkRights_def CheckRights_def customTest_def
  ExecRegexp_def

section \<open>The error list is only ever extended\<close>











section \<open>The rights check\<close>

lemma roles_order: "UNAUTHENTICATED < USER \<and> USER < OWNER \<and> OWNER < ADMIN \<and> ADMIN < NONE"
  by (simp add: UNAUTHENTICATED_def USER_def OWNER_def ADMIN_def NONE_def)

lemma Rights_at_in_range:
  assumes "usage = INIT \<or> usage = GET \<or> usage = SET"
  shows "\<exists>required. Rights_at rs usage = Inr required"
  using assms by (cases rs) (auto simp: INIT_def GET_def SET_def)

text \<open>
  Claim C6. For a usage INIT, GET or SET the rights check reads the required role from
  the rule's table and returns true exactly when the caller's role is at least the
  required one, and otherwise returns false with an "Insufficient rights" error for the
  rule's field; hence a caller role that passes keeps passing when it is raised. The
  roles are ordered UNAUTHENTICATED < USER < OWNER < ADMIN < NONE.
\<close>

theorem checkRights_order_monotone:
  assumes usage: "usage = INIT \<or> usage = GET \<or> usage = SET"
  shows "\<exists>required. Rights_at (Rights v) usage = Inr required
           \<and> (checkRights v usage r errs = Inr (True, errs)) = (required \<le> r)
           \<and> (checkRights v usage r errs =
                 Inr (False, errs @ [Some (DataError ''Validation error'' ''Insufficient rights''
                                            (Field_name v) Null)])) = (r < required)
           \<and> (\<forall>r2. r \<le> r2 \<longrightarrow> checkRights v usage r errs = Inr (True, errs)
                        \<longrightarrow> checkRights v usage r2 errs = Inr (True, errs))
           \<and> UNAUTHENTICATED < USER \<and> USER < OWNER \<and> OWNER < ADMIN \<and> ADMIN < NONE"
proof -
  obtain required where req: "Rights_at (Rights v) usage = Inr required"
    using Rights_at_in_range [OF usage] by blast
  have pass: "\<And>x. (checkRights v usage x errs = Inr (True, errs)) = (required \<le> x)"
    by (simp add: checkRights_def req CheckRights_def)
  have fail: "(checkRights v usage r errs =
                 Inr (False, errs @ [Some (DataError ''Validation error'' ''Insufficient rights''
                                            (Field_name v) Null)])) = (r < required)"
    by (auto simp: checkRights_def req CheckRights_def)
  have mono: "\<forall>r2. r \<le> r2 \<longrightarrow> checkRights v usage r errs = Inr (True, errs)
                        \<longrightarrow> checkRights v usage r2 errs = Inr (True, errs)"
    by (simp add: pass)
  show ?thesis using req pass fail mono roles_order by blast
qed

theorem checkRights_order_monotone_witness:
  "(SET = INIT \<or> SET = GET \<or> SET = SET)
   \<and> Rights_at (Rights ((zero_Validator ''bson.ObjectId'' ''owner'')\<lparr>Rights := (ADMIN, USER, OWNER)\<rparr>)) SET = Inr OWNER
   \<and> checkRights ((zero_Validator ''bson.ObjectId'' ''owner'')\<lparr>Rights := (ADMIN, USER, OWNER)\<rparr>) SET OWNER [] = Inr (True, [])
   \<and> OWNER \<le> ADMIN
   \<and> checkRights ((zero_Validator ''bson.ObjectId'' ''owner'')\<lparr>Rights := (ADMIN, USER, OWNER)\<rparr>) SET ADMIN [] = Inr (True, [])
   \<and> checkRights ((zero_Validator ''bson.ObjectId'' ''owner'')\<lparr>Rights := (ADMIN, USER, OWNER)\<rparr>) SET USER [] =
        Inr (False, [Some (DataError ''Validation error'' ''Insufficient rights'' ''owner'' Null)])"
  using checkRights_order_monotone
    [of SET "(zero_Validator ''bson.ObjectId'' ''owner'')\<lparr>Rights := (ADMIN, USER, OWNER)\<rparr>" OWNER "[]"]
  by (simp add: zero_Validator_def SET_def INIT_def GET_def OWNER_def ADMIN_def USER_def
        checkRights_def CheckRights_def)

section \<open>The type check\<close>

lemma lower_hex_is_hex: "is_lower_hex_digit c \<Longrightarrow> is_hex_digit c"
  by (auto simp: is_lower_hex_digit_def is_hex_digit_def)

lemma IsObjectIdHex_lower:
  assumes "length s = 24" and "list_all is_lower_hex_digit s"
  shows "IsObjectIdHex s"
  using assms by (auto simp: IsObjectIdHex_def list_all_iff lower_hex_is_hex)

text \<open>
  Claim C5. Under a rule whose type is \<^verbatim>\<open>bson.ObjectId\<close>, a string of exactly 24 lowercase
  hexadecimal characters passes the type check although its runtime type is
  \<^verbatim>\<open>string\<close>; a string of 23 characters, and a string of 24 characters one of which is
  not a hexadecimal digit, fail it with a "Type mismatch" error that names the runtime
  type \<^verbatim>\<open>string\<close>.
\<close>

theorem checkType_identifier_exception:
  assumes "Type v = ''bson.ObjectId''"
  shows "(length s = 24 \<and> list_all is_lower_hex_digit s
            \<longrightarrow> checkType v (Str s) errs = Inr (True, errs))
       \<and> (length s = 23 \<or> (length s = 24 \<and> \<not> list_all is_hex_digit s)
            \<longrightarrow> checkType v (Str s) errs =
                  Inr (False, errs @ [Some (DataError ''Validation error'' ''Type mismatch''
                                             (Field_name v) (Str ''string''))]))"
proof (intro conjI impI)
  assume "length s = 24 \<and> list_all is_lower_hex_digit s"
  then have "IsObjectIdHex s" by (simp add: IsObjectIdHex_lower)
  then show "checkType v (Str s) errs = Inr (True, errs)"
    using assms by simp
next
  assume "length s = 23 \<or> (length s = 24 \<and> \<not> list_all is_hex_digit s)"
  then have "\<not> IsObjectIdHex s" by (auto simp: IsObjectIdHex_def)
  then show "checkType v (Str s) errs =
      Inr (False, errs @ [Some (DataError ''Validation error'' ''Type mismatch''
                                 (Field_name v) (Str ''string''))])"
    using assms by simp
qed

theorem checkType_identifier_exception_witness:
  "Type (zero_Validator ''bson.ObjectId'' ''owner'') = ''bson.ObjectId''
   \<and> length ''507f1f77bcf86cd799439011'' = 24
   \<and> list_all is_lower_hex_digit ''507f1f77bcf86cd799439011''
   \<and> checkType (zero_Validator ''bson.ObjectId'' ''owner'') (Str ''507f1f77bcf86cd799439011'') []
       = Inr (True, [])
   \<and> length ''507f1f77bcf86cd79943901'' = 23
   \<and> checkType (zero_Validator ''bson.ObjectId'' ''owner'') (Str ''507f1f77bcf86cd79943901'') []
       = Inr (False, [Some (DataError ''Validation error'' ''Type mismatch'' ''owner''
                             (Str ''string''))])
   \<and> length ''507f1f77bcf86cd79943901z'' = 24
   \<and> \<not> list_all is_hex_digit ''507f1f77bcf86cd79943901z''
   \<and> checkType (zero_Validator ''bson.ObjectId'' ''owner'') (Str ''507f1f77bcf86cd79943901z'') []
       = Inr (False, [Some (DataError ''Validation error'' ''Type mismatch'' ''owner''
                             (Str ''string''))])"
  using
    checkType_identifier_exception
      [of "zero_Validator ''bson.ObjectId'' ''owner''" "''507f1f77bcf86cd799439011''" "[]"]
    checkType_identifier_exception
      [of "zero_Validator ''bson.ObjectId'' ''owner''" "''507f1f77bcf86cd79943901''" "[]"]
    checkType_identifier_exception
      [of "zero_Validator ''bson.ObjectId'' ''owner''" "''507f1f77bcf86cd79943901z''" "[]"]
  by (simp add: zero_Validator_def is_lower_hex_digit_def is_hex_digit_def)

text \<open>
  Claim C2, at a failing input. Under the rule type \<^verbatim>\<open>[]bson.ObjectId\<close> the slice whose
  first element is an identifier string and whose second element is a number passes the
  type check: the identifier exception returns true for the whole slice at the first
  element it applies to, and the elements after it are never looked at. The same two
  elements in the other order fail with a "Type mismatch" that names \<^verbatim>\<open>json.Number\<close>.
\<close>

theorem checkType_sequence_early_accept:
  "checkType (zero_Validator ''[]bson.ObjectId'' ''ids'')
     (Seq [Str ''507f1f77bcf86cd799439011'', Number (Finite 1)]) [] = Inr (True, [])
   \<and> checkType (zero_Validator ''[]bson.ObjectId'' ''ids'')
     (Seq [Number (Finite 1), Str ''507f1f77bcf86cd799439011'']) [] =
       Inr (False, [Some (DataError ''Validation error'' ''Type mismatch'' ''ids''
                           (Str ''[] contains json.Number''))])"
  by (simp add: zero_Validator_def IsObjectIdHex_def is_hex_digit_def)

text \<open>
  Claim C4, at a failing input. Under the scalar rule type \<^verbatim>\<open>string\<close> an empty map (a
  present value) passes the type check and no error is recorded, and a non-empty map
  panics at \<^verbatim>\<open>parts[1]\<close>; the branch for maps never compares the kind of the rule's type
  with the kind of the value. The branch for slices does: the same rule on a slice fails
  with a "Type mismatch" that carries the slice's runtime type.
\<close>

theorem checkType_scalar_rule_on_mapping:
  "\<not> absent (Map [])
   \<and> checkType (zero_Validator ''string'' ''name'') (Map []) [] = Inr (True, [])
   \<and> checkType (zero_Validator ''string'' ''name'') (Map [(''first'', Str ''Ada'')]) [] =
       Inl Index_out_of_range
   \<and> checkType (zero_Validator ''string'' ''name'') (Seq [Str ''Ada'']) [] =
       Inr (False, [Some (DataError ''Validation error'' ''Type mismatch'' ''name''
                           (Str ''[]interface {}''))])"
  by (simp add: zero_Validator_def)

section \<open>The value check on numbers\<close>

lemma customTest_passes:
  "(\<exists>es. customTest v x errs = Inr (True, es)) = (\<forall>f. CustomTest v = Some f \<longrightarrow> fst (f x))"
  by (auto simp: customTest_def split: option.splits prod.splits)

text \<open>
  Claim C9, amended. On a number the value check passes exactly when
  min \<open>\<le>\<close> value \<open>\<le>\<close> max, both ends included, and the rule's custom test, if it has
  one, accepts the value. A number outside the boundaries fails with an "Out of
  boundaries" error for the rule's field, before any custom test is run. For finite
  boundaries min \<open>\<le>\<close> max and no custom test, the values min and max pass and every value
  strictly below min or strictly above max fails with that error.
\<close>

theorem checkValue_boundaries_inclusive:
  "((\<exists>es. checkValue d v (Number n) errs = Inr (True, es)) =
      (f64_le (Min_bound (Boundaries v)) n \<and> f64_le n (Max_bound (Boundaries v))
       \<and> (\<forall>f. CustomTest v = Some f \<longrightarrow> fst (f (Number n)))))
   \<and> (\<not> (f64_le (Min_bound (Boundaries v)) n \<and> f64_le n (Max_bound (Boundaries v)))
        \<longrightarrow> checkValue d v (Number n) errs =
              Inr (False, errs @ [Some (DataError ''Validation error'' ''Out of boundaries''
                                         (Field_name v) (Number n))]))
   \<and> (Boundaries v = \<lparr>Min_bound = Finite lo, Max_bound = Finite hi\<rparr> \<and> lo \<le> hi
        \<and> CustomTest v = None
        \<longrightarrow> checkValue d v (Number (Finite lo)) errs = Inr (True, errs)
          \<and> checkValue d v (Number (Finite hi)) errs = Inr (True, errs)
          \<and> (\<forall>x. x < lo \<or> hi < x
                \<longrightarrow> checkValue d v (Number (Finite x)) errs =
                      Inr (False, errs @ [Some (DataError ''Validation error''
                            ''Out of boundaries'' (Field_name v) (Number (Finite x)))])))"
proof (intro conjI)
  show "(\<exists>es. checkValue d v (Number n) errs = Inr (True, es)) =
      (f64_le (Min_bound (Boundaries v)) n \<and> f64_le n (Max_bound (Boundaries v))
       \<and> (\<forall>f. CustomTest v = Some f \<longrightarrow> fst (f (Number n))))"
    using customTest_passes [of v "Number n" errs]
    by (auto simp: CheckBoundaries_def f64_ge_def)
next
  show "\<not> (f64_le (Min_bound (Boundaries v)) n \<and> f64_le n (Max_bound (Boundaries v)))
        \<longrightarrow> checkValue d v (Number n) errs =
              Inr (False, errs @ [Some (DataError ''Validation error'' ''Out of boundaries''
                                         (Field_name v) (Number n))])"
    by (simp add: CheckBoundaries_def f64_ge_def)
next
  show "Boundaries v = \<lparr>Min_bound = Finite lo, Max_bound = Finite hi\<rparr> \<and> lo \<le> hi
        \<and> CustomTest v = None
        \<longrightarrow> checkValue d v (Number (Finite lo)) errs = Inr (True, errs)
          \<and> checkValue d v (Number (Finite hi)) errs = Inr (True, errs)
          \<and> (\<forall>x. x < lo \<or> hi < x
                \<longrightarrow> checkValue d v (Number (Finite x)) errs =
                      Inr (False, errs @ [Some (DataError ''Validation error''
                            ''Out of boundaries'' (Field_name v) (Number (Finite x)))]))"
    by (auto simp: CheckBoundaries_def f64_ge_def customTest_def)
qed

theorem checkValue_boundaries_inclusive_witness:
  "Boundaries ((zero_Validator ''json.Number'' ''age'')
       \<lparr>Boundaries := \<lparr>Min_bound = Finite 0, Max_bound = Finite 120\<rparr>\<rparr>) =
     \<lparr>Min_bound = Finite 0, Max_bound = Finite 120\<rparr>
   \<and> (0::rat) \<le> 120
   \<and> CustomTest ((zero_Validator ''json.Number'' ''age'')
       \<lparr>Boundaries := \<lparr>Min_bound = Finite 0, Max_bound = Finite 120\<rparr>\<rparr>) = None
   \<and> checkValue sample_deps ((zero_Validator ''json.Number'' ''age'')
       \<lparr>Boundaries := \<lparr>Min_bound = Finite 0, Max_bound = Finite 120\<rparr>\<rparr>)
       (Number (Finite 0)) [] = Inr (True, [])
   \<and> checkValue sample_deps ((zero_Validator ''json.Number'' ''age'')
       \<lparr>Boundaries := \<lparr>Min_bound = Finite 0, Max_bound = Finite 120\<rparr>\<rparr>)
       (Number (Finite 120)) [] = Inr (True, [])
   \<and> \<not> (f64_le (Finite 0) (Finite 150) \<and> f64_le (Finite 150) (Finite 120))
   \<and> checkValue sample_deps ((zero_Validator ''json.Number'' ''age'')
       \<lparr>Boundaries := \<lparr>Min_bound = Finite 0, Max_bound = Finite 120\<rparr>\<rparr>)
       (Number (Finite 150)) [] =
       Inr (False, [Some (DataError ''Validation error'' ''Out of boundaries'' ''age''
                           (Number (Finite 150)))])"
  using checkValue_boundaries_inclusive
    [of sample_deps "(zero_Validator ''json.Number'' ''age'')
       \<lparr>Boundaries := \<lparr>Min_bound = Finite 0, Max_bound = Finite 120\<rparr>\<rparr>" "Finite 150" "[]" 0 120]
  by (simp add: zero_Validator_def)

text \<open>
  Claim C9 as stated fails: with boundaries 0 and 120 and a custom test that rejects, the
  number 50 lies within the boundaries and the value check returns false.
\<close>

theorem checkValue_custom_test_rejects_in_bounds:
  "f64_le (Finite 0) (Finite 50) \<and> f64_le (Finite 50) (Finite 120)
   \<and> checkValue sample_deps ((zero_Validator ''json.Number'' ''age'')
       \<lparr>Boundaries := \<lparr>Min_bound = Finite 0, Max_bound = Finite 120\<rparr>,
        CustomTest := Some reject_all\<rparr>)
       (Number (Finite 50)) [] =
       Inr (False, [Some (DataError ''Validation error'' ''Rejected'' ''age''
                           (Number (Finite 50)))])"
  by (simp add: zero_Validator_def CheckBoundaries_def f64_ge_def customTest_def reject_all_def)

text \<open>
  Claim C10. The boundary test of \<^verbatim>\<open>checkValue\<close> is applied to every \<^verbatim>\<open>json.Number\<close>,
  whatever else the rule says. With the boundaries left at their zero value (min = 0,
  max = 0) every number other than 0 is rejected with an "Out of boundaries" error that
  carries the rule's field and the number.
\<close>

theorem checkValue_zero_boundaries:
  assumes "Boundaries v = \<lparr>Min_bound = Finite 0, Max_bound = Finite 0\<rparr>"
    and "n \<noteq> Finite 0"
  shows "checkValue d v (Number n) errs =
           Inr (False, errs @ [Some (DataError ''Validation error'' ''Out of boundaries''
                                      (Field_name v) (Number n))])"
  using assms by (cases n) (auto simp: CheckBoundaries_def f64_ge_def)

theorem checkValue_zero_boundaries_witness:
  "Boundaries (zero_Validator ''json.Number'' ''age'') =
     \<lparr>Min_bound = Finite 0, Max_bound = Finite 0\<rparr>
   \<and> Finite 42 \<noteq> Finite 0
   \<and> checkValue sample_deps (zero_Validator ''json.Number'' ''age'') (Number (Finite 42)) [] =
       Inr (False, [Some (DataError ''Validation error'' ''Out of boundaries'' ''age''
                           (Number (Finite 42)))])"
  using checkValue_zero_boundaries
    [of "zero_Validator ''json.Number'' ''age''" "Finite 42" sample_deps "[]"]
  by (simp add: zero_Validator_def)

section \<open>The output document\<close>

lemma Validate_field_copy:
  assumes "Validate_field d m opt (path, vptr) (dest, errs) = Inr (dest', errs')"
  shows "copy_fields d m opt ((path, vptr) # rest) dest = copy_fields d m opt rest dest'"
  using assms
  by (auto simp: Validate_field_def split: sum.splits if_splits option.splits)

lemma Validate_loop_copy:
  "Validate_loop d m opt vs (dest, errs) = Inr (out, es) \<Longrightarrow> copy_fields d m opt vs dest = Some out"
proof (induction vs arbitrary: dest errs)
  case Nil
  then show ?case by simp
next
  case (Cons e vs)
  obtain path vptr where e: "e = (path, vptr)" by (cases e)
  from Cons.prems obtain st where f: "Validate_field d m opt e (dest, errs) = Inr st"
    by (cases "Validate_field d m opt e (dest, errs)") simp_all
  obtain dest' errs' where st: "st = (dest', errs')" by (cases st)
  have "Validate_loop d m opt vs (dest', errs') = Inr (out, es)"
    using Cons.prems f st by simp
  then have "copy_fields d m opt vs dest' = Some out" by (rule Cons.IH)
  then show ?case
    using Validate_field_copy [of d m opt path vptr dest errs dest' errs' vs] f st e by simp
qed

lemma Validate_field_SET:
  assumes "Usage opt = SET"
    and "Validate_field d m opt (path, vptr) (dest, errs) = Inr (dest', errs')"
  shows "\<exists>val. ReadDeep d m path = Inr val
           \<and> dest' = (if absent val then dest else AList.update path val dest)"
  using assms
  by (auto simp: Validate_field_def SET_def INIT_def split: sum.splits if_splits option.splits)

lemma Validate_loop_SET:
  assumes "Usage opt = SET"
  shows "Validate_loop d m opt vs (dest, errs) = Inr (out, es) \<Longrightarrow>
         (map_of out k = Some x) =
           ((k \<in> fst ` set vs \<and> ReadDeep d m k = Inr x \<and> \<not> absent x)
            \<or> (\<not> (k \<in> fst ` set vs \<and> (\<exists>y. ReadDeep d m k = Inr y \<and> \<not> absent y))
                \<and> map_of dest k = Some x))"
proof (induction vs arbitrary: dest errs)
  case Nil
  then show ?case by simp
next
  case (Cons e vs)
  obtain path vptr where e: "e = (path, vptr)" by (cases e)
  from Cons.prems obtain st where f: "Validate_field d m opt e (dest, errs) = Inr st"
    by (cases "Validate_field d m opt e (dest, errs)") simp_all
  obtain dest' errs' where st: "st = (dest', errs')" by (cases st)
  have rest: "Validate_loop d m opt vs (dest', errs') = Inr (out, es)"
    using Cons.prems f st by simp
  obtain val where rd: "ReadDeep d m path = Inr val"
    and d': "dest' = (if absent val then dest else AList.update path val dest)"
    using Validate_field_SET [OF assms, of d m path vptr dest errs dest' errs'] f st e by blast
  have ih: "(map_of out k = Some x) =
           ((k \<in> fst ` set vs \<and> ReadDeep d m k = Inr x \<and> \<not> absent x)
            \<or> (\<not> (k \<in> fst ` set vs \<and> (\<exists>y. ReadDeep d m k = Inr y \<and> \<not> absent y))
                \<and> map_of dest' k = Some x))"
    using rest by (rule Cons.IH)
  show ?case
    unfolding ih using rd d' e
    by (cases "k = path") (auto simp: update_conv')
qed

text \<open>
  Claim C1, amended. When \<^verbatim>\<open>Validate\<close> returns, its output document is the one that the
  copying steps alone build: every present value is copied before its checks run and
  stays whether they pass or fail, and defaults are written for absent, non-required
  fields under INIT. Under SET the keys of the output are exactly the rule paths whose
  value is present, each bound to that value.
\<close>

theorem Validate_output_copies_present_fields:
  assumes "Validate d validators m opt = Inr (out, es)"
  shows "copy_fields d m opt validators [] = Some out
       \<and> (Usage opt = SET \<longrightarrow>
            (\<forall>k x. (map_of out k = Some x) =
                     (k \<in> fst ` set validators \<and> ReadDeep d m k = Inr x \<and> \<not> absent x)))"
proof (intro conjI impI allI)
  show "copy_fields d m opt validators [] = Some out"
    using assms unfolding Validate_def by (rule Validate_loop_copy)
next
  fix k x
  assume "Usage opt = SET"
  then show "(map_of out k = Some x) =
               (k \<in> fst ` set validators \<and> ReadDeep d m k = Inr x \<and> \<not> absent x)"
    using Validate_loop_SET [of opt d m validators "[]" "[]" out es k x] assms
    by (simp add: Validate_def)
qed

text \<open>
  An instance under SET: the number 150 fails the boundaries 0 to 120 and is in the
  output; the empty slice \<open>tags\<close> is absent and is not.
\<close>

theorem Validate_output_copies_present_fields_witness:
  "Validate sample_deps [(''age'', Some age_rule), (''tags'', Some tags_rule)]
     [(''age'', Number (Finite 150)), (''tags'', Seq [])] (options SET ADMIN) =
   Inr ([(''age'', Number (Finite 150))],
        [Some (DataError ''Validation error'' ''Out of boundaries'' ''age''
                (Number (Finite 150)))])
   \<and> copy_fields sample_deps [(''age'', Number (Finite 150)), (''tags'', Seq [])]
        (options SET ADMIN) [(''age'', Some age_rule), (''tags'', Some tags_rule)] [] =
       Some [(''age'', Number (Finite 150))]
   \<and> Usage (options SET ADMIN) = SET
   \<and> map_of [(''age'', Number (Finite 150))] ''age'' = Some (Number (Finite 150))
   \<and> map_of [(''age'', Number (Finite 150))] ''tags'' = None"
proof -
  have run: "Validate sample_deps [(''age'', Some age_rule), (''tags'', Some tags_rule)]
     [(''age'', Number (Finite 150)), (''tags'', Seq [])] (options SET ADMIN) =
   Inr ([(''age'', Number (Finite 150))],
        [Some (DataError ''Validation error'' ''Out of boundaries'' ''age''
                (Number (Finite 150)))])"
    by (simp add: scenario_defs)
  show ?thesis
    using Validate_output_copies_present_fields [OF run] run
    by (simp add: options_def)
qed


text \<open>
  Claim C1 as stated fails on scenario B of the spec: the age 150 is out of the
  boundaries 0 to 120, the error is reported, and the output document holds the field.
\<close>

theorem Validate_keeps_out_of_boundaries_field:
  "Validate sample_deps [(''age'', Some age_rule)] [(''age'', Number (Finite 150))]
     (options GET ADMIN) =
   Inr ([(''age'', Number (Finite 150))],
        [Some (DataError ''Validation error'' ''Out of boundaries'' ''age''
                (Number (Finite 150)))])"
  by (simp add: scenario_defs)

section \<open>Absent fields\<close>















section \<open>When Validate returns\<close>
























end
